theory Spec2Isabelle
  imports Complex_Main
begin

section \<open>Shared types and constants (types.ts)\<close>

text \<open>
  JavaScript numbers are IEEE doubles. They are modelled as exact numbers: \<open>real\<close> for the
  quantities that take fractional values (speed, score, cost, positions, distances, random
  draws) and \<open>int\<close> for the counters that only ever hold whole numbers (lives, level, lane
  count, letter indices, shield charges). All thresholds and comparisons are those of the
  source; rounding of the double arithmetic is not modelled.
\<close>

datatype GameStatus = MENU | PLAYING | SHOP | GAME_OVER | VICTORY

datatype GameMode = STORY | ENDLESS

datatype ObjectType = OBSTACLE | GEM | LETTER | SHOP_PORTAL | ALIEN | MISSILE | POWERUP

datatype PowerUpType = SHIELD | MAGNET | SCORE_X2 | SLOW | BOOST | INVERT

definition LANE_WIDTH :: real where
  "LANE_WIDTH = 2.2"

definition RUN_SPEED_BASE :: real where
  "RUN_SPEED_BASE = 22.5"

definition SPAWN_DISTANCE :: real where
  "SPAWN_DISTANCE = 120"

definition REMOVE_DISTANCE :: real where
  "REMOVE_DISTANCE = 20"

definition GEMINI_COLORS :: "string list" where
  "GEMINI_COLORS = [''#2979ff'', ''#ff1744'', ''#ffea00'', ''#2979ff'', ''#00e676'', ''#ff1744'']"

section \<open>The game state store (store.ts, the variant with speedMultiplier)\<close>

text \<open>
  The store that the level manager of this repository reads (it destructures
  \<open>speedMultiplier\<close>, \<open>mode\<close>, \<open>setSpeed\<close> and \<open>applyPowerUp\<close>). The state is the
  record of its data fields; the language setting, which no game rule reads, is left out.
  Every action is a function from the state before to the state after: \<open>get()\<close> reads the
  argument, \<open>set({...})\<close> is a record update.
\<close>

record GameState =
  status :: GameStatus
  mode :: GameMode
  score :: real
  lives :: int
  maxLives :: int
  speed :: real
  speedMultiplier :: real
  scoreMultiplier :: real
  collectedLetters :: "int list"
  level :: int
  laneCount :: int
  gemsCollected :: int
  distance :: real
  hasDoubleJump :: bool
  hasImmortality :: bool
  isImmortalityActive :: bool
  isControlsInverted :: bool
  isMagnetActive :: bool
  shieldCharges :: int

definition GEMINI_TARGET :: "string list" where
  "GEMINI_TARGET = [''G'', ''E'', ''M'', ''I'', ''N'', ''I'']"

definition MAX_LEVEL :: int where
  "MAX_LEVEL = 3"

definition startGame :: "GameState \<Rightarrow> GameState" where
  "startGame s = s\<lparr>
     status := PLAYING, mode := STORY,
     score := 0, lives := 6, maxLives := 6,
     speed := RUN_SPEED_BASE, speedMultiplier := 1, scoreMultiplier := 1,
     collectedLetters := [], level := 1, laneCount := 3, gemsCollected := 0, distance := 0,
     hasDoubleJump := False, hasImmortality := False, isImmortalityActive := False,
     isControlsInverted := False, isMagnetActive := False, shieldCharges := 0\<rparr>"

definition restartGame :: "GameState \<Rightarrow> GameState" where
  "restartGame s = s\<lparr>
     status := PLAYING, mode := STORY,
     score := 0, lives := 6, maxLives := 6,
     speed := RUN_SPEED_BASE, speedMultiplier := 1, scoreMultiplier := 1,
     collectedLetters := [], level := 1, laneCount := 3, gemsCollected := 0, distance := 0,
     hasDoubleJump := False, hasImmortality := False, isImmortalityActive := False,
     isControlsInverted := False, isMagnetActive := False, shieldCharges := 0\<rparr>"

text \<open>The store as \<open>create\<close> initialises it, before any game is started.\<close>

definition initialState :: GameState where
  "initialState = \<lparr>
     status = MENU, mode = STORY,
     score = 0, lives = 6, maxLives = 6,
     speed = 0, speedMultiplier = 1, scoreMultiplier = 1,
     collectedLetters = [], level = 1, laneCount = 3, gemsCollected = 0, distance = 0,
     hasDoubleJump = False, hasImmortality = False, isImmortalityActive = False,
     isControlsInverted = False, isMagnetActive = False, shieldCharges = 0\<rparr>"

definition takeDamage :: "GameState \<Rightarrow> GameState" where
  "takeDamage s =
     (if isImmortalityActive s then s
      else if shieldCharges s > 0 then s\<lparr>shieldCharges := max 0 (shieldCharges s - 1)\<rparr>
      else if lives s > 1 then s\<lparr>lives := lives s - 1\<rparr>
      else s\<lparr>lives := 0, status := GAME_OVER, speed := 0\<rparr>)"

definition addScore :: "real \<Rightarrow> GameState \<Rightarrow> GameState" where
  "addScore amount s =
     (let mult = scoreMultiplier s
      in s\<lparr>score := score s + real_of_int \<lfloor>amount * mult\<rfloor>\<rparr>)"

definition collectGem :: "real \<Rightarrow> GameState \<Rightarrow> GameState" where
  "collectGem v s =
     (let mult = scoreMultiplier s
      in s\<lparr>score := score s + real_of_int \<lfloor>v * mult\<rfloor>,
            gemsCollected := gemsCollected s + 1\<rparr>)"

definition setDistance :: "real \<Rightarrow> GameState \<Rightarrow> GameState" where
  "setDistance d s = s\<lparr>distance := d\<rparr>"

definition setSpeed :: "real \<Rightarrow> GameState \<Rightarrow> GameState" where
  "setSpeed v s = s\<lparr>speed := v\<rparr>"

definition advanceLevel :: "GameState \<Rightarrow> GameState" where
  "advanceLevel s =
     (let nextLevel = level s + 1;
          speedIncrease = RUN_SPEED_BASE * 0.25;
          newSpeed = speed s + speedIncrease
      in s\<lparr>level := nextLevel,
            laneCount := min (laneCount s + 2) 9,
            status := PLAYING,
            speed := newSpeed,
            collectedLetters := []\<rparr>)"

text \<open>
  \<open>collectLetter\<close> returns, beside the new state, the transitions it triggered: a call of
  \<open>advanceLevel\<close>, or the switch to the endless mode that ends the story.
\<close>

datatype Transition = AdvanceLevel | EnterEndless

definition collectLetter :: "int \<Rightarrow> GameState \<Rightarrow> Transition list \<times> GameState" where
  "collectLetter index s =
     (if mode s = ENDLESS then ([], addScore 250 s)
      else if index \<notin> set (collectedLetters s) then
        (let newLetters = collectedLetters s @ [index];
             speedIncrease = RUN_SPEED_BASE * 0.06;
             nextSpeed = speed s + speedIncrease;
             s1 = s\<lparr>collectedLetters := newLetters, speed := nextSpeed\<rparr>
         in if length newLetters = length GEMINI_TARGET then
              (if level s < MAX_LEVEL then ([AdvanceLevel], advanceLevel s1)
               else ([EnterEndless],
                     s1\<lparr>mode := ENDLESS, status := PLAYING,
                        score := score s1 + 5000, collectedLetters := []\<rparr>))
            else ([], s1))
      else ([], s))"

text \<open>A sequence of \<open>collectLetter\<close> calls, one after the other, with the transitions of all.\<close>

fun collectLetters :: "int list \<Rightarrow> GameState \<Rightarrow> Transition list \<times> GameState" where
  "collectLetters [] s = ([], s)"
| "collectLetters (i # idxs) s =
     (let r1 = collectLetter i s; r2 = collectLetters idxs (snd r1)
      in (fst r1 @ fst r2, snd r2))"

definition openShop :: "GameState \<Rightarrow> GameState" where
  "openShop s = s\<lparr>status := SHOP\<rparr>"

definition closeShop :: "GameState \<Rightarrow> GameState" where
  "closeShop s = s\<lparr>status := PLAYING\<rparr>"

datatype ItemType = DOUBLE_JUMP | MAX_LIFE | HEAL | IMMORTAL

text \<open>\<open>buyItem\<close> returns the boolean of the source and the state after.\<close>

definition buyItem :: "ItemType \<Rightarrow> real \<Rightarrow> GameState \<Rightarrow> bool \<times> GameState" where
  "buyItem item cost s =
     (if item = MAX_LIFE \<and> maxLives s \<ge> 6 then (False, s)
      else if score s \<ge> cost then
        (let s1 = s\<lparr>score := score s - cost\<rparr>
         in (True,
             case item of
               DOUBLE_JUMP \<Rightarrow> s1\<lparr>hasDoubleJump := True\<rparr>
             | MAX_LIFE \<Rightarrow>
                 (let nextMax = min (maxLives s + 1) 6;
                      nextLives = min (lives s + 1) nextMax
                  in s1\<lparr>maxLives := nextMax, lives := nextLives\<rparr>)
             | HEAL \<Rightarrow> s1\<lparr>lives := min (lives s + 1) (maxLives s)\<rparr>
             | IMMORTAL \<Rightarrow> s1\<lparr>hasImmortality := True\<rparr>))
      else (False, s))"

section \<open>World entities (types.ts, GameObject)\<close>

text \<open>
  A world entity with its optional fields. The identifier (a random UUID that only keys
  the rendered component) is left out; the letter of a LETTER entity (\<open>value\<close> in the
  source) is \<open>letterValue\<close>, and the kind of a power-up is the field \<open>powerUpType\<close> that
  the level manager writes and reads.
  A position is the triple (x, y, z): lane axis, height, forward axis.
\<close>

type_synonym vec3 = "real \<times> real \<times> real"

record GameObject =
  type :: ObjectType
  position :: vec3
  active :: bool
  letterValue :: "string option"
  targetIndex :: "int option"
  color :: "string option"
  points :: "real option"
  hasFired :: "bool option"
  powerUpType :: "PowerUpType option"

definition posX :: "GameObject \<Rightarrow> real" where
  "posX ob = fst (position ob)"

definition posY :: "GameObject \<Rightarrow> real" where
  "posY ob = fst (snd (position ob))"

definition posZ :: "GameObject \<Rightarrow> real" where
  "posZ ob = snd (snd (position ob))"

text \<open>An object literal of the source that sets only type, position and \<open>active: true\<close>.\<close>

definition newObject :: "ObjectType \<Rightarrow> vec3 \<Rightarrow> GameObject" where
  "newObject t p = \<lparr>type = t, position = p, active = True, letterValue = None,
     targetIndex = None, color = None, points = None, hasFired = None, powerUpType = None\<rparr>"

section \<open>The level manager (components/World/LevelManager.tsx)\<close>

definition OBSTACLE_HEIGHT :: real where
  "OBSTACLE_HEIGHT = 1.6"

definition BASE_LETTER_INTERVAL :: real where
  "BASE_LETTER_INTERVAL = 150"

definition MISSILE_SPEED :: real where
  "MISSILE_SPEED = 30"

definition getLetterInterval :: "int \<Rightarrow> real" where
  "getLetterInterval lvl = BASE_LETTER_INTERVAL * 1.5 ^ nat (max 0 (lvl - 1))"

text \<open>\<open>getRandomLane\<close>, with the value of its \<open>Math.random()\<close> call as the argument \<open>r\<close>.\<close>

definition getRandomLane :: "int \<Rightarrow> real \<Rightarrow> int" where
  "getRandomLane lanes r = (let mx = lanes div 2 in \<lfloor>r * real_of_int (mx * 2 + 1)\<rfloor> - mx)"

text \<open>
  What a frame sends out: the window events, the calls into the store and the sounds, in
  the order the frame issues them. The frame reads the store only through the values its
  render captured, so the calls are recorded and not applied inside the frame.
\<close>

datatype Effect =
    PlayerHit
  | ParticleBurst vec3 string
  | CallCollectGem real
  | CallCollectLetter int
  | CallApplyPowerUp PowerUpType
  | CallOpenShop
  | CallSetSpeed real
  | AudioGemCollect
  | AudioLetterCollect
  | AudioPowerUp

subsection \<open>The move and interaction pass: the body of the loop over the objects\<close>

text \<open>The outcome of the loop body for one object.\<close>

record Step =
  stepObject :: GameObject
  stepKeep :: bool
  stepSpawns :: "GameObject list"
  stepEffects :: "Effect list"
  stepChanged :: bool

definition moveObject :: "real \<Rightarrow> real \<Rightarrow> GameObject \<Rightarrow> GameObject" where
  "moveObject safeDelta frameDist ob =
     (let moveAmount = (if type ob = MISSILE then frameDist + MISSILE_SPEED * safeDelta else frameDist)
      in ob\<lparr>position := (posX ob, posY ob, posZ ob + moveAmount)\<rparr>)"

definition magnetPull :: "real \<Rightarrow> bool \<Rightarrow> vec3 \<Rightarrow> GameObject \<Rightarrow> GameObject" where
  "magnetPull safeDelta magnetActive playerPos ob =
     (if magnetActive \<and> active ob \<and> (type ob = GEM \<or> type ob = LETTER \<or> type ob = POWERUP)
         \<and> \<bar>posZ ob - snd (snd playerPos)\<bar> < 28
      then ob\<lparr>position :=
             (posX ob + (fst playerPos - posX ob) * safeDelta * 3.5, posY ob, posZ ob)\<rparr>
      else ob)"

definition alienFires :: "GameObject \<Rightarrow> bool" where
  "alienFires ob = (type ob = ALIEN \<and> active ob \<and> hasFired ob \<noteq> Some True \<and> posZ ob > -90)"

definition missileOf :: "GameObject \<Rightarrow> GameObject" where
  "missileOf ob = (newObject MISSILE (posX ob, 1.0, posZ ob + 2))\<lparr>color := Some ''#ff0000''\<rparr>"

definition isDamageSource :: "GameObject \<Rightarrow> bool" where
  "isDamageSource ob = (type ob = OBSTACLE \<or> type ob = ALIEN \<or> type ob = MISSILE)"

definition objBottom :: "GameObject \<Rightarrow> real" where
  "objBottom ob =
     (if type ob = OBSTACLE then 0 else if type ob = MISSILE then 0.5 else posY ob - 0.5)"

definition objTop :: "GameObject \<Rightarrow> real" where
  "objTop ob =
     (if type ob = OBSTACLE then OBSTACLE_HEIGHT
      else if type ob = MISSILE then 1.5 else posY ob + 0.5)"

text \<open>
  The effects of picking an item up. \<open>obj.points || 50\<close> and \<open>obj.color || '#ffffff'\<close> take
  the default for a missing field and for the falsy values 0 and the empty string.
\<close>

definition collectItem :: "GameObject \<Rightarrow> Effect list" where
  "collectItem ob =
     (if type ob = GEM
      then [CallCollectGem (case points ob of None \<Rightarrow> 50 | Some p \<Rightarrow> if p = 0 then 50 else p),
            AudioGemCollect]
      else [])
     @ (if type ob = LETTER
        then (case targetIndex ob of None \<Rightarrow> [] | Some i \<Rightarrow> [CallCollectLetter i, AudioLetterCollect])
        else [])
     @ (if type ob = POWERUP
        then (case powerUpType ob of None \<Rightarrow> [] | Some p \<Rightarrow> [CallApplyPowerUp p, AudioPowerUp])
        else [])
     @ [ParticleBurst (position ob)
          (case color ob of None \<Rightarrow> ''#ffffff'' | Some c \<Rightarrow> if c = [] then ''#ffffff'' else c)]"

definition untouched :: "GameObject \<Rightarrow> Step" where
  "untouched ob = \<lparr>stepObject = ob, stepKeep = True, stepSpawns = [], stepEffects = [],
     stepChanged = False\<rparr>"

text \<open>
  The collision block (\<open>if (obj.active) { ... }\<close>) for an object that has been moved;
  \<open>prevZ\<close> is its forward position before the move.
\<close>

definition collide :: "bool \<Rightarrow> vec3 \<Rightarrow> real \<Rightarrow> GameObject \<Rightarrow> Step" where
  "collide magnetActive playerPos prevZ ob =
     (let px = fst playerPos; py = fst (snd playerPos); pz = snd (snd playerPos);
          zThreshold = 2.0;
          inZZone = (prevZ < pz + zThreshold \<and> posZ ob > pz - zThreshold)
      in if \<not> active ob then untouched ob
         else if type ob = SHOP_PORTAL then
           (if \<bar>posZ ob - pz\<bar> < 2
            then \<lparr>stepObject = ob\<lparr>active := False\<rparr>, stepKeep = False, stepSpawns = [],
                   stepEffects = [CallOpenShop], stepChanged = True\<rparr>
            else untouched ob)
         else if inZZone then
           (let dx = \<bar>posX ob - px\<bar>;
                dxThreshold = (if isDamageSource ob then 0.9 else if magnetActive then 2.1 else 0.9)
            in if dx < dxThreshold then
                 (if isDamageSource ob then
                    (let playerBottom = py; playerTop = py + 1.8;
                         isHit = (playerBottom < objTop ob \<and> playerTop > objBottom ob)
                     in if isHit
                        then \<lparr>stepObject = ob\<lparr>active := False\<rparr>, stepKeep = True, stepSpawns = [],
                               stepEffects = PlayerHit #
                                 (if type ob = MISSILE then [ParticleBurst (position ob) ''#ff4400'']
                                  else []),
                               stepChanged = True\<rparr>
                        else untouched ob)
                  else
                    (let dy = \<bar>posY ob - py\<bar>
                     in if dy < 2.8
                        then \<lparr>stepObject = ob\<lparr>active := False\<rparr>, stepKeep = True, stepSpawns = [],
                               stepEffects = collectItem ob, stepChanged = True\<rparr>
                        else untouched ob))
               else untouched ob)
         else untouched ob)"

text \<open>
  One iteration of \<open>for (const obj of currentObjects)\<close>: move, magnet pull, alien fire,
  collision, removal behind the player.
\<close>

definition updateObject :: "real \<Rightarrow> real \<Rightarrow> bool \<Rightarrow> vec3 \<Rightarrow> GameObject \<Rightarrow> Step" where
  "updateObject safeDelta frameDist magnetActive playerPos ob =
     (let prevZ = posZ ob;
          moved = magnetPull safeDelta magnetActive playerPos (moveObject safeDelta frameDist ob);
          fire = alienFires moved;
          fired = (if fire then moved\<lparr>hasFired := Some True\<rparr> else moved);
          hit = collide magnetActive playerPos prevZ fired;
          removed = (posZ fired > REMOVE_DISTANCE)
      in \<lparr>stepObject = stepObject hit,
          stepKeep = (stepKeep hit \<and> \<not> removed),
          stepSpawns = (if fire then [missileOf fired] else []),
          stepEffects = (if fire then [ParticleBurst (position fired) ''#ff00ff''] else [])
                        @ stepEffects hit,
          stepChanged = (fire \<or> stepChanged hit \<or> removed)\<rparr>)"

text \<open>
  The inputs of one frame that the loop body reads, and the history of one object over a
  sequence of frames: the loop body is applied to it in every frame for as long as the
  frame keeps it, and the missiles it spawns are collected.
\<close>

record Tick =
  tickDelta :: real
  tickDist :: real
  tickMagnet :: bool
  tickPlayer :: vec3

definition tickObject :: "Tick \<Rightarrow> GameObject \<Rightarrow> Step" where
  "tickObject tk ob = updateObject (tickDelta tk) (tickDist tk) (tickMagnet tk) (tickPlayer tk) ob"

fun missilesOver :: "Tick list \<Rightarrow> GameObject \<Rightarrow> GameObject list" where
  "missilesOver [] ob = []"
| "missilesOver (tk # tks) ob =
     (let st = tickObject tk ob
      in stepSpawns st @ (if stepKeep st then missilesOver tks (stepObject st) else []))"

subsection \<open>The spawn planner\<close>

text \<open>
  The values of the \<open>Math.random()\<close> calls of one frame, one field for each call site
  (the gem-on-top draw runs once for each spike, so it is indexed), and the outcome of
  the random-comparator sort that shuffles the lanes.
\<close>

record Randoms =
  rndLane :: real
  rndLetter :: real
  rndAttempt :: real
  rndPowerUp :: real
  rndPowerUpKind :: real
  rndObstacle :: real
  rndAlien :: real
  rndAlienCount :: real
  rndSpikeCount :: real
  rndTopGem :: "nat \<Rightarrow> real"
  shuffleLanes :: "int list \<Rightarrow> int list"

definition furthestZ :: "GameObject list \<Rightarrow> real" where
  "furthestZ keptObjects =
     (let staticObjects = filter (\<lambda>ob. type ob \<noteq> MISSILE) keptObjects
      in if staticObjects \<noteq> [] then min_list (map posZ staticObjects) else -20)"

definition minGap :: "GameMode \<Rightarrow> real \<Rightarrow> real" where
  "minGap md effectiveSpeed =
     (let baseGap = (if md = ENDLESS then 13 else 14);
          gapFactor = (if md = ENDLESS then 0.22 else 0.26)
      in min 30 (baseGap + effectiveSpeed * gapFactor))"

definition spawnZ :: "GameMode \<Rightarrow> real \<Rightarrow> GameObject list \<Rightarrow> real" where
  "spawnZ md effectiveSpeed keptObjects =
     min (furthestZ keptObjects - minGap md effectiveSpeed) (- SPAWN_DISTANCE)"

definition portalDue :: "GameMode \<Rightarrow> real \<Rightarrow> real \<Rightarrow> GameObject list \<Rightarrow> bool" where
  "portalDue md travelled nextPortal keptObjects =
     (md = ENDLESS \<and> travelled \<ge> nextPortal
      \<and> \<not> (\<exists>ob \<in> set keptObjects. type ob = SHOP_PORTAL \<and> active ob))"

definition availableIndices :: "int list \<Rightarrow> int list" where
  "availableIndices collected = filter (\<lambda>i. i \<notin> set collected) [0, 1, 2, 3, 4, 5]"

text \<open>
  The letter branch. An index past the end of the available indices (which a draw below 1
  never gives) reads \<open>undefined\<close> in JavaScript: the letter then has no target index,
  value or colour.
\<close>

definition spawnLetter :: "int \<Rightarrow> int list \<Rightarrow> Randoms \<Rightarrow> real \<Rightarrow> GameObject" where
  "spawnLetter lanes collected rnd z =
     (let lane = getRandomLane lanes (rndLane rnd);
          avail = availableIndices collected;
          k = \<lfloor>rndLetter rnd * real (length avail)\<rfloor>;
          chosenIndex = (if 0 \<le> k \<and> nat k < length avail then Some (avail ! nat k) else None);
          inTarget = (case chosenIndex of None \<Rightarrow> None
                      | Some c \<Rightarrow> if 0 \<le> c \<and> c < 6 then Some (nat c) else None)
      in (newObject LETTER (real_of_int lane * LANE_WIDTH, 1.0, z))
           \<lparr>color := map_option (\<lambda>c. GEMINI_COLORS ! c) inTarget,
            letterValue := map_option (\<lambda>c. GEMINI_TARGET ! c) inTarget,
            targetIndex := chosenIndex\<rparr>)"

definition spawnGem :: "int \<Rightarrow> Randoms \<Rightarrow> real \<Rightarrow> GameObject" where
  "spawnGem lanes rnd z =
     (let lane = getRandomLane lanes (rndLane rnd)
      in (newObject GEM (real_of_int lane * LANE_WIDTH, 1.2, z))
           \<lparr>color := Some ''#00ffff'', points := Some 50\<rparr>)"

definition powerUpKind :: "real \<Rightarrow> PowerUpType" where
  "powerUpKind r =
     (if r < 0.26 then SHIELD
      else if r < 0.50 then MAGNET
      else if r < 0.70 then SCORE_X2
      else if r < 0.86 then SLOW
      else if r < 0.95 then BOOST
      else INVERT)"

fun colorByType :: "PowerUpType \<Rightarrow> string" where
  "colorByType SHIELD = ''#00ffff''"
| "colorByType MAGNET = ''#b388ff''"
| "colorByType SLOW = ''#2979ff''"
| "colorByType BOOST = ''#ff1744''"
| "colorByType SCORE_X2 = ''#ffea00''"
| "colorByType INVERT = ''#ff00ff''"

definition spawnPowerUp :: "int \<Rightarrow> Randoms \<Rightarrow> real \<Rightarrow> GameObject" where
  "spawnPowerUp lanes rnd z =
     (let lane = getRandomLane lanes (rndLane rnd);
          pType = powerUpKind (rndPowerUpKind rnd)
      in (newObject POWERUP (real_of_int lane * LANE_WIDTH, 1.2, z))
           \<lparr>powerUpType := Some pType, color := Some (colorByType pType)\<rparr>)"

text \<open>
  The lanes \<open>-maxLane .. maxLane\<close>, shuffled. The sort keeps the length of the array, so
  the counts below are taken from the unshuffled list.
\<close>

definition availableLanes :: "int \<Rightarrow> int list" where
  "availableLanes lanes = (let maxLane = lanes div 2 in [- maxLane .. maxLane])"

definition spawnAliens :: "int \<Rightarrow> Randoms \<Rightarrow> real \<Rightarrow> GameObject list" where
  "spawnAliens lanes rnd z =
     (let alienCount = (if rndAlienCount rnd > 0.82
                        then min 2 (length (availableLanes lanes)) else 1)
      in map (\<lambda>lane. (newObject ALIEN (real_of_int lane * LANE_WIDTH, 1.5, z))
                        \<lparr>color := Some ''#00ff00'', hasFired := Some False\<rparr>)
           (take alienCount (shuffleLanes rnd (availableLanes lanes))))"

definition spikeAt :: "GameMode \<Rightarrow> Randoms \<Rightarrow> real \<Rightarrow> nat \<times> int \<Rightarrow> GameObject list" where
  "spikeAt md rnd z il =
     (let laneX = real_of_int (snd il) * LANE_WIDTH;
          topGemChance = (if md = ENDLESS then 0.34 else 0.28)
      in (newObject OBSTACLE (laneX, OBSTACLE_HEIGHT / 2, z))\<lparr>color := Some ''#ff0054''\<rparr>
         # (if rndTopGem rnd (fst il) < topGemChance
            then [(newObject GEM (laneX, OBSTACLE_HEIGHT + 1.0, z))
                    \<lparr>color := Some ''#ffd700'', points := Some 100\<rparr>]
            else []))"

definition spawnSpikes :: "GameMode \<Rightarrow> int \<Rightarrow> Randoms \<Rightarrow> real \<Rightarrow> GameObject list" where
  "spawnSpikes md lanes rnd z =
     (let p = rndSpikeCount rnd;
          countToSpawn = (if p > 0.88 then min 3 (length (availableLanes lanes))
                          else if p > 0.62 then min 2 (length (availableLanes lanes)) else 1)
      in concat (map (spikeAt md rnd z)
           (enumerate 0 (take countToSpawn (shuffleLanes rnd (availableLanes lanes))))))"

text \<open>What the planner does in one frame, and the planner itself.\<close>

record Plan =
  planCreated :: "GameObject list"
  planLetterDistance :: real
  planPortalDistance :: real
  planChanged :: bool

definition spawnPlanner ::
  "GameState \<Rightarrow> real \<Rightarrow> real \<Rightarrow> real \<Rightarrow> real \<Rightarrow> Randoms \<Rightarrow> GameObject list \<Rightarrow> Plan" where
  "spawnPlanner g effectiveSpeed travelled nextLetter nextPortal rnd keptObjects =
     (if furthestZ keptObjects > - SPAWN_DISTANCE then
        (let z = spawnZ (mode g) effectiveSpeed keptObjects;
             portal = portalDue (mode g) travelled nextPortal keptObjects;
             portals = (if portal then [newObject SHOP_PORTAL (0, 0, z - 35)] else []);
             isLetterDue = (mode g = STORY \<and> travelled \<ge> nextLetter);
             letterLeft = (availableIndices (collectedLetters g) \<noteq> []);
             attempt = (rndAttempt rnd > 0.12);
             powerupChance = (if mode g = ENDLESS then 0.10 else 0.07);
             obstacleProb = (if mode g = ENDLESS then 0.74 else 0.64);
             spawnAlien = (level g \<ge> 2 \<and> rndAlien rnd < (if mode g = ENDLESS then 0.16 else 0.12));
             others =
               (if isLetterDue then
                  (if letterLeft then [spawnLetter (laneCount g) (collectedLetters g) rnd z]
                   else [spawnGem (laneCount g) rnd z])
                else if attempt then
                  (if rndPowerUp rnd < powerupChance then [spawnPowerUp (laneCount g) rnd z]
                   else if rndObstacle rnd < obstacleProb then
                     (if spawnAlien then spawnAliens (laneCount g) rnd z
                      else spawnSpikes (mode g) (laneCount g) rnd z)
                   else [spawnGem (laneCount g) rnd z])
                else [])
         in \<lparr>planCreated = portals @ others,
             planLetterDistance =
               (if isLetterDue \<and> letterLeft then nextLetter + getLetterInterval (level g)
                else nextLetter),
             planPortalDistance = (if portal then nextPortal + 520 else nextPortal),
             planChanged = (portal \<or> isLetterDue \<or> attempt)\<rparr>)
      else \<lparr>planCreated = [], planLetterDistance = nextLetter,
             planPortalDistance = nextPortal, planChanged = False\<rparr>)"

subsection \<open>The frame callback\<close>

text \<open>
  The mutable references of the component, and the frame callback: the state \<open>g\<close> is the
  store as the render captured it, \<open>playerObj\<close> the world position of the player object
  when it is mounted (the origin is used otherwise). The distance \<open>dist\<close> of the source is
  \<open>frameDist\<close> here.
\<close>

record Refs =
  objects :: "GameObject list"
  distanceTraveled :: real
  nextLetterDistance :: real
  nextPortalDistance :: real
  nextRampDistance :: real

definition useFrame ::
  "GameState \<Rightarrow> real \<Rightarrow> vec3 option \<Rightarrow> Randoms \<Rightarrow> Refs \<Rightarrow> Refs \<times> Effect list" where
  "useFrame g delta playerObj rnd refs =
     (if status g \<noteq> PLAYING then (refs, [])
      else
        (let safeDelta = min delta 0.05;
             effectiveSpeed = speed g * speedMultiplier g;
             frameDist = effectiveSpeed * safeDelta;
             travelled = distanceTraveled refs + frameDist;
             ramp = (mode g = ENDLESS \<and> travelled \<ge> nextRampDistance refs);
             rampEffects =
               (if ramp
                then [CallSetSpeed (min (RUN_SPEED_BASE * 3.0) (speed g + RUN_SPEED_BASE * 0.03))]
                else []);
             playerPos = (case playerObj of None \<Rightarrow> (0, 0, 0) | Some p \<Rightarrow> p);
             steps = map (updateObject safeDelta frameDist (isMagnetActive g) playerPos) (objects refs);
             keptObjects = map stepObject (filter stepKeep steps) @ concat (map stepSpawns steps);
             plan = spawnPlanner g effectiveSpeed travelled (nextLetterDistance refs)
                      (nextPortalDistance refs) rnd keptObjects;
             hasChanges = ((\<exists>st \<in> set steps. stepChanged st) \<or> planChanged plan)
         in (\<lparr>objects = (if hasChanges then keptObjects @ planCreated plan
                         else map stepObject steps),
              distanceTraveled = travelled,
              nextLetterDistance = planLetterDistance plan,
              nextPortalDistance = planPortalDistance plan,
              nextRampDistance = (if ramp then nextRampDistance refs + 80
                                  else nextRampDistance refs)\<rparr>,
             rampEffects @ concat (map stepEffects steps))))"

section \<open>Concrete inputs\<close>

text \<open>A story run of level 1 in which five of the six letters have been collected.\<close>

definition fiveLetters :: GameState where
  "fiveLetters = (startGame initialState)\<lparr>collectedLetters := [0, 1, 2, 3, 4]\<rparr>"

text \<open>A ground spike two units ahead of a player who stands at the origin.\<close>

definition spike :: GameObject where
  "spike = (newObject OBSTACLE (0.5, 0.8, -2))\<lparr>color := Some ''#ff0054''\<rparr>"

text \<open>
  An alien that has not fired, one unit short of its firing range, and a frame that moves
  the world by 1.5 units (speed 30 over 0.05 seconds) with the player at the origin.
\<close>

definition alien :: GameObject where
  "alien = (newObject ALIEN (2.2, 1.5, -91))\<lparr>color := Some ''#00ff00'', hasFired := Some False\<rparr>"

definition frame :: Tick where
  "frame = \<lparr>tickDelta = 0.05, tickDist = 1.5, tickMagnet = False, tickPlayer = (0, 0, 0)\<rparr>"

text \<open>
  An endless run at speed 20 that has travelled 500 units, a gem 100 units ahead, and
  random draws that make the planner place a ground gem.
\<close>

definition endlessRun :: GameState where
  "endlessRun = (startGame initialState)\<lparr>mode := ENDLESS, speed := 20, level := 3, laneCount := 7\<rparr>"

definition gemAhead :: GameObject where
  "gemAhead = (newObject GEM (0, 1.2, -100))\<lparr>color := Some ''#00ffff'', points := Some 50\<rparr>"

definition draws :: Randoms where
  "draws = \<lparr>rndLane = 0.5, rndLetter = 0.5, rndAttempt = 0.5, rndPowerUp = 0.5,
     rndPowerUpKind = 0.5, rndObstacle = 0.9, rndAlien = 0.5, rndAlienCount = 0.5,
     rndSpikeCount = 0.5, rndTopGem = (\<lambda>k. 0.5), shuffleLanes = (\<lambda>xs. xs)\<rparr>"

text \<open>A story run at level 2 with two letters collected.\<close>

definition storyLevel2 :: GameState where
  "storyLevel2 = (startGame initialState)\<lparr>level := 2, laneCount := 5, collectedLetters := [0, 1]\<rparr>"

section \<open>Properties of the store\<close>

lemma startGame_fields:
  "status (startGame s) = PLAYING" "mode (startGame s) = STORY"
  "speed (startGame s) = 22.5" "lives (startGame s) = 6" "level (startGame s) = 1"
  "laneCount (startGame s) = 3" "collectedLetters (startGame s) = []"
  by (simp_all add: startGame_def RUN_SPEED_BASE_def)

text \<open>
  Claim C3. With one life left, immortality inactive and no shield charge, \<open>takeDamage\<close>
  sets lives to 0, speed to 0 and the status to \<open>GAME_OVER\<close>, whatever the other buffs
  are; and \<open>takeDamage\<close> never makes a non-negative life count negative.
\<close>

theorem takeDamage_last_life:
  "(lives s = 1 \<and> \<not> isImmortalityActive s \<and> shieldCharges s \<le> 0 \<longrightarrow>
      lives (takeDamage s) = 0 \<and> speed (takeDamage s) = 0 \<and> status (takeDamage s) = GAME_OVER)
   \<and> (0 \<le> lives s \<longrightarrow> 0 \<le> lives (takeDamage s))"
  by (simp add: takeDamage_def)

theorem takeDamage_last_life_witness:
  "lives (takeDamage (initialState\<lparr>status := PLAYING, lives := 1, speed := 30, isMagnetActive := True\<rparr>)) = 0
   \<and> speed (takeDamage (initialState\<lparr>status := PLAYING, lives := 1, speed := 30, isMagnetActive := True\<rparr>)) = 0
   \<and> status (takeDamage (initialState\<lparr>status := PLAYING, lives := 1, speed := 30, isMagnetActive := True\<rparr>)) = GAME_OVER"
  using takeDamage_last_life
    [of "initialState\<lparr>status := PLAYING, lives := 1, speed := 30, isMagnetActive := True\<rparr>"]
  by (simp add: initialState_def)

text \<open>
  Claim C5, as amended. In a fresh story run (status \<open>PLAYING\<close>, speed 22.5, no letter
  collected) collecting letter index 3 once leaves the collected letters \<open>[3]\<close> and the
  status \<open>PLAYING\<close>; the speed grows by 6 percent of the base speed, to
  22.5 + 1.35 = 23.85, not by 2.25 to 24.75.
\<close>

theorem collectLetter_fresh_run:
  "status s = PLAYING \<and> mode s = STORY \<and> speed s = 22.5 \<and> collectedLetters s = [] \<longrightarrow>
     collectedLetters (snd (collectLetter 3 s)) = [3]
     \<and> speed (snd (collectLetter 3 s)) = 22.5 + 1.35
     \<and> speed (snd (collectLetter 3 s)) = 23.85
     \<and> status (snd (collectLetter 3 s)) = PLAYING"
  by (simp add: collectLetter_def RUN_SPEED_BASE_def GEMINI_TARGET_def Let_def)

theorem collectLetter_fresh_run_witness:
  "lives (startGame initialState) = 6 \<and> level (startGame initialState) = 1
   \<and> laneCount (startGame initialState) = 3
   \<and> collectedLetters (snd (collectLetter 3 (startGame initialState))) = [3]
   \<and> speed (snd (collectLetter 3 (startGame initialState))) = 23.85
   \<and> status (snd (collectLetter 3 (startGame initialState))) = PLAYING"
  using collectLetter_fresh_run [of "startGame initialState"]
  by (simp add: startGame_def RUN_SPEED_BASE_def)

theorem collectLetter_fresh_run_counterexample:
  "status (startGame initialState) = PLAYING \<and> mode (startGame initialState) = STORY
   \<and> speed (startGame initialState) = 22.5 \<and> lives (startGame initialState) = 6
   \<and> level (startGame initialState) = 1 \<and> laneCount (startGame initialState) = 3
   \<and> speed (snd (collectLetter 3 (startGame initialState))) \<noteq> 24.75"
  by (simp add: collectLetter_def startGame_def RUN_SPEED_BASE_def GEMINI_TARGET_def Let_def)

text \<open>
  Claim C7. A purchase keeps lives at most \<open>maxLives\<close> and \<open>maxLives\<close> at most 6: both
  bounds are preserved by every \<open>buyItem\<close> call; after a \<open>MAX_LIFE\<close> or \<open>HEAL\<close> purchase
  that goes through, lives is at most \<open>maxLives\<close> whatever the state before was; a
  \<open>MAX_LIFE\<close> purchase that goes through leaves \<open>maxLives\<close> at most 6; and with
  \<open>maxLives\<close> already at 6 the \<open>MAX_LIFE\<close> purchase returns false and changes nothing.
\<close>

theorem buyItem_lives_bounded:
  "(lives s \<le> maxLives s \<and> maxLives s \<le> 6 \<longrightarrow>
      lives (snd (buyItem item cost s)) \<le> maxLives (snd (buyItem item cost s))
      \<and> maxLives (snd (buyItem item cost s)) \<le> 6)
   \<and> (fst (buyItem item cost s) \<and> (item = MAX_LIFE \<or> item = HEAL) \<longrightarrow>
      lives (snd (buyItem item cost s)) \<le> maxLives (snd (buyItem item cost s)))
   \<and> (fst (buyItem MAX_LIFE cost s) \<longrightarrow> maxLives (snd (buyItem MAX_LIFE cost s)) \<le> 6)
   \<and> (6 \<le> maxLives s \<longrightarrow> buyItem MAX_LIFE cost s = (False, s))"
  by (cases item) (auto simp add: buyItem_def Let_def)

theorem buyItem_lives_bounded_witness:
  "fst (buyItem MAX_LIFE 1500 (initialState\<lparr>score := 2000, lives := 5, maxLives := 5\<rparr>))
   \<and> lives (snd (buyItem MAX_LIFE 1500 (initialState\<lparr>score := 2000, lives := 5, maxLives := 5\<rparr>))) \<le> 6
   \<and> maxLives (snd (buyItem MAX_LIFE 1500 (initialState\<lparr>score := 2000, lives := 5, maxLives := 5\<rparr>))) \<le> 6
   \<and> buyItem MAX_LIFE 1500 (initialState\<lparr>score := 2000\<rparr>) = (False, initialState\<lparr>score := 2000\<rparr>)"
  using buyItem_lives_bounded
    [of "initialState\<lparr>score := 2000, lives := 5, maxLives := 5\<rparr>" MAX_LIFE 1500]
    buyItem_lives_bounded [of "initialState\<lparr>score := 2000\<rparr>" MAX_LIFE 1500]
  by (simp add: initialState_def buyItem_def Let_def)

text \<open>
  With a life count that is not negative, the two bounds hold when the store is created
  and after every start of a game, and every action of a run keeps them.
\<close>

lemma life_bounds_initially:
  "0 \<le> lives initialState \<and> lives initialState \<le> maxLives initialState
   \<and> maxLives initialState \<le> 6"
  "0 \<le> lives (startGame s) \<and> lives (startGame s) \<le> maxLives (startGame s)
   \<and> maxLives (startGame s) \<le> 6"
  "0 \<le> lives (restartGame s) \<and> lives (restartGame s) \<le> maxLives (restartGame s)
   \<and> maxLives (restartGame s) \<le> 6"
  by (simp_all add: initialState_def startGame_def restartGame_def)

lemma life_bounds_kept:
  assumes "0 \<le> lives s \<and> lives s \<le> maxLives s \<and> maxLives s \<le> 6"
  shows "0 \<le> lives (takeDamage s) \<and> lives (takeDamage s) \<le> maxLives (takeDamage s)
         \<and> maxLives (takeDamage s) \<le> 6"
    and "0 \<le> lives (snd (buyItem item cost s))
         \<and> lives (snd (buyItem item cost s)) \<le> maxLives (snd (buyItem item cost s))
         \<and> maxLives (snd (buyItem item cost s)) \<le> 6"
    and "0 \<le> lives (snd (collectLetter i s))
         \<and> lives (snd (collectLetter i s)) \<le> maxLives (snd (collectLetter i s))
         \<and> maxLives (snd (collectLetter i s)) \<le> 6"
    and "0 \<le> lives (collectGem v s) \<and> lives (collectGem v s) \<le> maxLives (collectGem v s)
         \<and> maxLives (collectGem v s) \<le> 6"
    and "0 \<le> lives (addScore v s) \<and> lives (addScore v s) \<le> maxLives (addScore v s)
         \<and> maxLives (addScore v s) \<le> 6"
    and "0 \<le> lives (advanceLevel s) \<and> lives (advanceLevel s) \<le> maxLives (advanceLevel s)
         \<and> maxLives (advanceLevel s) \<le> 6"
    and "0 \<le> lives (openShop s) \<and> lives (openShop s) \<le> maxLives (openShop s)
         \<and> maxLives (openShop s) \<le> 6"
    and "0 \<le> lives (closeShop s) \<and> lives (closeShop s) \<le> maxLives (closeShop s)
         \<and> maxLives (closeShop s) \<le> 6"
    and "0 \<le> lives (setSpeed v s) \<and> lives (setSpeed v s) \<le> maxLives (setSpeed v s)
         \<and> maxLives (setSpeed v s) \<le> 6"
    and "0 \<le> lives (setDistance v s) \<and> lives (setDistance v s) \<le> maxLives (setDistance v s)
         \<and> maxLives (setDistance v s) \<le> 6"
proof -
  show "0 \<le> lives (snd (buyItem item cost s))
         \<and> lives (snd (buyItem item cost s)) \<le> maxLives (snd (buyItem item cost s))
         \<and> maxLives (snd (buyItem item cost s)) \<le> 6"
    using assms by (cases item) (auto simp add: buyItem_def Let_def)
qed (use assms in \<open>simp_all add: takeDamage_def collectLetter_def collectGem_def addScore_def
      advanceLevel_def openShop_def closeShop_def setSpeed_def setDistance_def Let_def\<close>)

text \<open>
  Claim C10. A \<open>DOUBLE_JUMP\<close> or \<open>IMMORTAL\<close> purchase with enough score returns true and
  deducts the cost whether or not the ability is already owned (the ownership flag is
  not read). \<open>buyItem\<close> returns false exactly when the item is \<open>MAX_LIFE\<close> with
  \<open>maxLives\<close> at 6 or more, or the score is below the cost; a failed purchase leaves the
  state, the score included, as it was.
\<close>

theorem buyItem_owned_ability:
  "((item = DOUBLE_JUMP \<or> item = IMMORTAL) \<and> cost \<le> score s \<longrightarrow>
      fst (buyItem item cost s)
      \<and> score (snd (buyItem item cost s)) = score s - cost
      \<and> hasDoubleJump (snd (buyItem item cost s)) = (item = DOUBLE_JUMP \<or> hasDoubleJump s)
      \<and> hasImmortality (snd (buyItem item cost s)) = (item = IMMORTAL \<or> hasImmortality s))
   \<and> (\<not> fst (buyItem item cost s) \<longleftrightarrow> (item = MAX_LIFE \<and> 6 \<le> maxLives s) \<or> score s < cost)
   \<and> (\<not> fst (buyItem item cost s) \<longrightarrow> snd (buyItem item cost s) = s)"
  by (cases item) (auto simp add: buyItem_def Let_def)

theorem buyItem_owned_ability_witness:
  "hasDoubleJump (initialState\<lparr>score := 3000, hasDoubleJump := True\<rparr>)
   \<and> fst (buyItem DOUBLE_JUMP 1000 (initialState\<lparr>score := 3000, hasDoubleJump := True\<rparr>))
   \<and> score (snd (buyItem DOUBLE_JUMP 1000 (initialState\<lparr>score := 3000, hasDoubleJump := True\<rparr>))) = 2000
   \<and> buyItem MAX_LIFE 1500 (initialState\<lparr>score := 3000\<rparr>) = (False, initialState\<lparr>score := 3000\<rparr>)"
  using buyItem_owned_ability
    [of DOUBLE_JUMP 1000 "initialState\<lparr>score := 3000, hasDoubleJump := True\<rparr>"]
    buyItem_owned_ability [of MAX_LIFE 1500 "initialState\<lparr>score := 3000\<rparr>"]
  by (simp add: initialState_def prod_eq_iff)

text \<open>
  Claim C4, as amended. In story mode, when the first \<open>collectLetter i\<close> call does not
  complete the word (the index is already collected, or the list does not hold exactly
  five letters), a second call with the same index changes nothing: no transition, the
  same collected letters, speed and score. The first call appends the index and adds 6
  percent of the base speed when the index is new, and changes nothing otherwise; it
  never changes the score. When the first call completes the word, the list is emptied
  for the next level, and the same index is then collected afresh.
\<close>

theorem collectLetter_twice:
  "mode s = STORY \<and> (i \<in> set (collectedLetters s) \<or> length (collectedLetters s) \<noteq> 5) \<longrightarrow>
     collectLetter i (snd (collectLetter i s)) = ([], snd (collectLetter i s))
     \<and> fst (collectLetter i s) = []
     \<and> score (snd (collectLetter i s)) = score s
     \<and> (i \<in> set (collectedLetters s) \<longrightarrow> snd (collectLetter i s) = s)
     \<and> (i \<notin> set (collectedLetters s) \<longrightarrow>
          collectedLetters (snd (collectLetter i s)) = collectedLetters s @ [i]
          \<and> speed (snd (collectLetter i s)) = speed s + RUN_SPEED_BASE * 0.06)"
  by (auto simp add: collectLetter_def GEMINI_TARGET_def Let_def)

theorem collectLetter_twice_witness:
  "mode (startGame initialState) = STORY
   \<and> collectedLetters (snd (collectLetter 3 (startGame initialState))) = [3]
   \<and> collectLetter 3 (snd (collectLetter 3 (startGame initialState)))
       = ([], snd (collectLetter 3 (startGame initialState)))"
  using collectLetter_twice [of "startGame initialState" 3]
  by (simp add: startGame_def)

theorem collectLetter_twice_counterexample:
  "mode fiveLetters = STORY \<and> level fiveLetters = 1
   \<and> collectedLetters fiveLetters = [0, 1, 2, 3, 4]
   \<and> collectedLetters (snd (collectLetter 5 fiveLetters)) = []
   \<and> collectedLetters (snd (collectLetter 5 (snd (collectLetter 5 fiveLetters)))) = [5]
   \<and> speed (snd (collectLetter 5 (snd (collectLetter 5 fiveLetters))))
       = speed (snd (collectLetter 5 fiveLetters)) + 1.35"
  by (simp add: fiveLetters_def collectLetter_def advanceLevel_def startGame_def
      RUN_SPEED_BASE_def GEMINI_TARGET_def MAX_LEVEL_def Let_def)

lemma collectLetters_endless:
  "mode s = ENDLESS \<Longrightarrow>
     fst (collectLetters idxs s) = [] \<and> mode (snd (collectLetters idxs s)) = ENDLESS
     \<and> level (snd (collectLetters idxs s)) = level s"
proof (induction idxs arbitrary: s)
  case Nil
  then show ?case by simp
next
  case (Cons i idxs)
  have step: "fst (collectLetter i s) = []" "mode (snd (collectLetter i s)) = ENDLESS"
    "level (snd (collectLetter i s)) = level s"
    using Cons.prems by (simp_all add: collectLetter_def addScore_def Let_def)
  from Cons.IH [OF step(2)] step show ?case by (simp add: Let_def)
qed

lemma collectLetters_short:
  "mode s = STORY \<Longrightarrow> length (collectedLetters s) + length idxs < 6 \<Longrightarrow>
     fst (collectLetters idxs s) = [] \<and> mode (snd (collectLetters idxs s)) = STORY
     \<and> level (snd (collectLetters idxs s)) = level s"
proof (induction idxs arbitrary: s)
  case Nil
  then show ?case by simp
next
  case (Cons i idxs)
  have step: "fst (collectLetter i s) = []" "mode (snd (collectLetter i s)) = STORY"
    "level (snd (collectLetter i s)) = level s"
    "length (collectedLetters (snd (collectLetter i s))) \<le> length (collectedLetters s) + 1"
    using Cons.prems by (simp_all add: collectLetter_def GEMINI_TARGET_def Let_def)
  have "length (collectedLetters (snd (collectLetter i s))) + length idxs < 6"
    using step(4) Cons.prems(2) by simp
  from Cons.IH [OF step(2) this] step show ?case by (simp add: Let_def)
qed

lemma collectLetters_completes:
  "mode s = STORY \<Longrightarrow> distinct idxs \<Longrightarrow> length idxs \<le> 6 \<Longrightarrow>
   length (collectedLetters s) < 6 \<Longrightarrow>
   6 \<le> length (collectedLetters s) + length (filter (\<lambda>i. i \<notin> set (collectedLetters s)) idxs) \<Longrightarrow>
     fst (collectLetters idxs s) = [if level s < 3 then AdvanceLevel else EnterEndless]
     \<and> mode (snd (collectLetters idxs s)) = (if level s < 3 then STORY else ENDLESS)
     \<and> level (snd (collectLetters idxs s)) = (if level s < 3 then level s + 1 else level s)"
proof (induction idxs arbitrary: s)
  case Nil
  then show ?case by simp
next
  case (Cons i idxs)
  let ?c = "collectedLetters s"
  let ?s1 = "snd (collectLetter i s)"
  have d: "distinct idxs" "i \<notin> set idxs" "length idxs \<le> 5"
    using Cons.prems by simp_all
  show ?case
  proof (cases "i \<in> set ?c")
    case True
    then have same: "collectLetter i s = ([], s)"
      using Cons.prems(1) by (simp add: collectLetter_def)
    have "6 \<le> length ?c + length (filter (\<lambda>i. i \<notin> set ?c) idxs)"
      using Cons.prems(5) True by simp
    from Cons.IH [OF Cons.prems(1) d(1) _ Cons.prems(4) this] d(3) same
    show ?thesis by (simp add: Let_def)
  next
    case False
    show ?thesis
    proof (cases "length ?c = 5")
      case True
      show ?thesis
      proof (cases "level s < 3")
        case l: True
        have step: "fst (collectLetter i s) = [AdvanceLevel]" "mode ?s1 = STORY"
          "level ?s1 = level s + 1" "collectedLetters ?s1 = []"
          using Cons.prems(1) False True l
          by (simp_all add: collectLetter_def advanceLevel_def GEMINI_TARGET_def MAX_LEVEL_def Let_def)
        have "length (collectedLetters ?s1) + length idxs < 6"
          using step(4) d(3) by simp
        from collectLetters_short [OF step(2) this] step l
        show ?thesis by (simp add: Let_def)
      next
        case l: False
        have step: "fst (collectLetter i s) = [EnterEndless]" "mode ?s1 = ENDLESS"
          "level ?s1 = level s"
          using Cons.prems(1) False True l
          by (simp_all add: collectLetter_def GEMINI_TARGET_def MAX_LEVEL_def Let_def)
        from collectLetters_endless [OF step(2), of idxs] step l
        show ?thesis by (simp add: Let_def)
      qed
    next
      case n5: False
      have step: "fst (collectLetter i s) = []" "mode ?s1 = STORY"
        "level ?s1 = level s" "collectedLetters ?s1 = ?c @ [i]"
        using Cons.prems(1) False n5
        by (simp_all add: collectLetter_def GEMINI_TARGET_def Let_def)
      have len: "length (collectedLetters ?s1) < 6"
        using step(4) Cons.prems(4) n5 by simp
      have "filter (\<lambda>j. j \<notin> set (?c @ [i])) idxs = filter (\<lambda>j. j \<notin> set ?c) idxs"
        using d(2) by (intro filter_cong) auto
      then have "6 \<le> length (collectedLetters ?s1)
          + length (filter (\<lambda>j. j \<notin> set (collectedLetters ?s1)) idxs)"
        using Cons.prems(5) False step(4) by simp
      from Cons.IH [OF step(2) d(1) _ len this] d(3) step
      show ?thesis by (simp add: Let_def)
    qed
  qed
qed

lemma fresh_indices_suffice:
  fixes idxs coll :: "int list"
  assumes "distinct idxs" and "set idxs = {0..5}"
  shows "length idxs = 6 \<and> 6 \<le> length coll + length (filter (\<lambda>i. i \<notin> set coll) idxs)"
proof -
  have "length idxs = card (set idxs)"
    using assms(1) by (simp add: distinct_card)
  then have len: "length idxs = 6"
    using assms(2) by simp
  have "distinct (filter (\<lambda>i. i \<in> set coll) idxs)"
    using assms(1) by simp
  then have "length (filter (\<lambda>i. i \<in> set coll) idxs) = card (set (filter (\<lambda>i. i \<in> set coll) idxs))"
    by (rule distinct_card [symmetric])
  also have "\<dots> \<le> card (set coll)"
    by (rule card_mono) auto
  also have "\<dots> \<le> length coll"
    by (rule card_length)
  finally have "length (filter (\<lambda>i. i \<in> set coll) idxs) \<le> length coll" .
  moreover have "length (filter (\<lambda>i. i \<in> set coll) idxs)
      + length (filter (\<lambda>i. \<not> i \<in> set coll) idxs) = length idxs"
    by (rule sum_length_filter_compl)
  ultimately show ?thesis
    using len by simp
qed

text \<open>
  Claim C2. In story mode with fewer than six letters collected, collecting the six
  letter indices 0 to 5, each once and in any order, triggers exactly one transition:
  below level 3 one \<open>advanceLevel\<close> call (the level grows by one and the mode stays
  \<open>STORY\<close>), at level 3 one switch to the endless mode (the level stays 3); never both
  and never a second one.
\<close>

theorem collectLetters_word_complete:
  "mode s = STORY \<and> length (collectedLetters s) < 6 \<and> distinct idxs \<and> set idxs = {0..5} \<longrightarrow>
     (level s < 3 \<longrightarrow>
        fst (collectLetters idxs s) = [AdvanceLevel]
        \<and> level (snd (collectLetters idxs s)) = level s + 1
        \<and> mode (snd (collectLetters idxs s)) = STORY)
     \<and> (level s = 3 \<longrightarrow>
        fst (collectLetters idxs s) = [EnterEndless]
        \<and> level (snd (collectLetters idxs s)) = 3
        \<and> mode (snd (collectLetters idxs s)) = ENDLESS)"
proof (intro impI, elim conjE)
  assume a: "mode s = STORY" "length (collectedLetters s) < 6" "distinct idxs" "set idxs = {0..5}"
  have f: "length idxs = 6"
    "6 \<le> length (collectedLetters s) + length (filter (\<lambda>i. i \<notin> set (collectedLetters s)) idxs)"
    using fresh_indices_suffice [OF a(3) a(4), of "collectedLetters s"] by simp_all
  have "length idxs \<le> 6" using f(1) by simp
  from collectLetters_completes [OF a(1) a(3) this a(2) f(2)]
  show "(level s < 3 \<longrightarrow>
        fst (collectLetters idxs s) = [AdvanceLevel]
        \<and> level (snd (collectLetters idxs s)) = level s + 1
        \<and> mode (snd (collectLetters idxs s)) = STORY)
     \<and> (level s = 3 \<longrightarrow>
        fst (collectLetters idxs s) = [EnterEndless]
        \<and> level (snd (collectLetters idxs s)) = 3
        \<and> mode (snd (collectLetters idxs s)) = ENDLESS)"
    by simp
qed


lemma all_six_indices: "distinct [3, 1, 4, 0, 5, 2::int] \<and> set [3, 1, 4, 0, 5, 2::int] = {0..5}"
proof -
  have "{0..5::int} = set [0..5]" by simp
  also have "[0..5::int] = [0, 1, 2, 3, 4, 5]" by code_simp
  finally show ?thesis by auto
qed

theorem collectLetters_word_complete_witness:
  "fst (collectLetters [3, 1, 4, 0, 5, 2] (startGame initialState)) = [AdvanceLevel]
   \<and> level (snd (collectLetters [3, 1, 4, 0, 5, 2] (startGame initialState))) = 2
   \<and> fst (collectLetters [3, 1, 4, 0, 5, 2] ((startGame initialState)\<lparr>level := 3\<rparr>)) = [EnterEndless]
   \<and> mode (snd (collectLetters [3, 1, 4, 0, 5, 2] ((startGame initialState)\<lparr>level := 3\<rparr>))) = ENDLESS"
proof -
  let ?s1 = "startGame initialState"
  let ?s3 = "(startGame initialState)\<lparr>level := 3\<rparr>"
  let ?idxs = "[3, 1, 4, 0, 5, 2::int]"
  have s1: "mode ?s1 = STORY" "length (collectedLetters ?s1) < 6" "level ?s1 = 1"
    by (simp_all add: startGame_def)
  have s3: "mode ?s3 = STORY" "length (collectedLetters ?s3) < 6" "level ?s3 = 3"
    by (simp_all add: startGame_def)
  have h1: "mode ?s1 = STORY \<and> length (collectedLetters ?s1) < 6 \<and> distinct ?idxs
      \<and> set ?idxs = {0..5}"
    using s1(1) s1(2) all_six_indices by blast
  have h3: "mode ?s3 = STORY \<and> length (collectedLetters ?s3) < 6 \<and> distinct ?idxs
      \<and> set ?idxs = {0..5}"
    using s3(1) s3(2) all_six_indices by blast
  have l1: "level ?s1 < 3"
    unfolding s1(3) by simp
  note r1 = collectLetters_word_complete [of ?s1 ?idxs, THEN mp, OF h1, THEN conjunct1, THEN mp, OF l1]
  note r3 = collectLetters_word_complete [of ?s3 ?idxs, THEN mp, OF h3, THEN conjunct2, THEN mp, OF s3(3)]
  have "level (snd (collectLetters ?idxs ?s1)) = 2"
    using r1 [THEN conjunct2, THEN conjunct1] s1(3) by linarith
  with r1 [THEN conjunct1] r3 [THEN conjunct1] r3 [THEN conjunct2, THEN conjunct2]
  show ?thesis by blast
qed

section \<open>Properties of the move and interaction pass\<close>

lemma posZ_moveObject:
  "posZ (moveObject safeDelta d ob)
     = posZ ob + (if type ob = MISSILE then d + MISSILE_SPEED * safeDelta else d)"
  "posX (moveObject safeDelta d ob) = posX ob"
  "posY (moveObject safeDelta d ob) = posY ob"
  "type (moveObject safeDelta d ob) = type ob"
  "active (moveObject safeDelta d ob) = active ob"
  "hasFired (moveObject safeDelta d ob) = hasFired ob"
  by (simp_all add: moveObject_def posZ_def posX_def posY_def Let_def)

lemma magnetPull_fields:
  "posZ (magnetPull safeDelta m pp ob) = posZ ob"
  "posY (magnetPull safeDelta m pp ob) = posY ob"
  "type (magnetPull safeDelta m pp ob) = type ob"
  "active (magnetPull safeDelta m pp ob) = active ob"
  "hasFired (magnetPull safeDelta m pp ob) = hasFired ob"
  "isDamageSource ob \<Longrightarrow> magnetPull safeDelta m pp ob = ob"
  by (auto simp add: magnetPull_def posZ_def posX_def posY_def isDamageSource_def)

lemma collide_posZ: "posZ (stepObject (collide m pp prevZ ob)) = posZ ob"
  by (simp add: collide_def untouched_def posZ_def Let_def)

lemma collide_damage_hit:
  assumes "active ob" "isDamageSource ob"
    and "prevZ < pz + 2" "posZ ob > pz - 2"
    and "\<bar>posX ob - px\<bar> < 0.9"
    and "py < objTop ob" "py + 1.8 > objBottom ob"
  shows "count_list (stepEffects (collide m (px, py, pz) prevZ ob)) PlayerHit = 1"
    and "\<not> active (stepObject (collide m (px, py, pz) prevZ ob))"
  using assms by (auto simp add: collide_def isDamageSource_def Let_def)

text \<open>
  Claim C1. The loop body runs once for each object of a frame. For an active damage
  source (obstacle, alien or missile) whose forward position before the move is below the
  player's plus 2.0 and after the move above the player's minus 2.0, whose lateral
  distance to the player is below 0.9 and whose vertical extent (ground to 1.6 for an
  obstacle, 0.5 to 1.5 for a missile, half a unit around its height otherwise) overlaps
  the player's body (1.8 high), the loop body emits exactly one player-hit event and
  leaves the object inactive.
\<close>

theorem swept_collision_hit:
  "active ob \<and> (type ob = OBSTACLE \<or> type ob = ALIEN \<or> type ob = MISSILE)
   \<and> posZ ob < pz + 2
   \<and> posZ ob + (if type ob = MISSILE then d + MISSILE_SPEED * safeDelta else d) > pz - 2
   \<and> \<bar>posX ob - px\<bar> < 0.9
   \<and> py < objTop ob \<and> py + 1.8 > objBottom ob
   \<longrightarrow> count_list (stepEffects (updateObject safeDelta d m (px, py, pz) ob)) PlayerHit = 1
       \<and> \<not> active (stepObject (updateObject safeDelta d m (px, py, pz) ob))
       \<and> posZ (stepObject (updateObject safeDelta d m (px, py, pz) ob))
           = posZ ob + (if type ob = MISSILE then d + MISSILE_SPEED * safeDelta else d)"
proof (intro impI, elim conjE)
  assume a0: "active ob" "type ob = OBSTACLE \<or> type ob = ALIEN \<or> type ob = MISSILE"
    "posZ ob < pz + 2"
    "posZ ob + (if type ob = MISSILE then d + MISSILE_SPEED * safeDelta else d) > pz - 2"
    "\<bar>posX ob - px\<bar> < 0.9" "py < objTop ob" "py + 1.8 > objBottom ob"
  have a: "active ob" "isDamageSource ob" "posZ ob < pz + 2"
    "posZ (moveObject safeDelta d ob) > pz - 2" "\<bar>posX ob - px\<bar> < 0.9"
    "py < objTop ob" "py + 1.8 > objBottom ob"
    using a0 by (simp_all add: isDamageSource_def posZ_moveObject)
  let ?mv = "moveObject safeDelta d ob"
  let ?fired = "if alienFires ?mv then ?mv\<lparr>hasFired := Some True\<rparr> else ?mv"
  have dmg: "isDamageSource ?mv"
    using a(2) by (simp add: isDamageSource_def posZ_moveObject)
  have pull: "magnetPull safeDelta m (px, py, pz) ?mv = ?mv"
    using dmg by (rule magnetPull_fields)
  have same: "active ?fired = active ob" "type ?fired = type ob" "posX ?fired = posX ob"
    "posY ?fired = posY ob" "posZ ?fired = posZ ?mv"
    by (simp_all add: moveObject_def posZ_def posX_def posY_def Let_def)
  have f: "active ?fired" "isDamageSource ?fired" "posZ ?fired > pz - 2"
    "\<bar>posX ?fired - px\<bar> < 0.9" "py < objTop ?fired" "py + 1.8 > objBottom ?fired"
    using a by (simp_all only: same isDamageSource_def objTop_def objBottom_def)
  have "count_list (stepEffects (collide m (px, py, pz) (posZ ob) ?fired)) PlayerHit = 1"
    and "\<not> active (stepObject (collide m (px, py, pz) (posZ ob) ?fired))"
    using collide_damage_hit [OF f(1) f(2) a(3) f(3) f(4) f(5) f(6)] by simp_all
  moreover have "posZ (stepObject (collide m (px, py, pz) (posZ ob) ?fired)) = posZ ?mv"
    by (simp add: collide_posZ same)
  ultimately show "count_list (stepEffects (updateObject safeDelta d m (px, py, pz) ob)) PlayerHit = 1
       \<and> \<not> active (stepObject (updateObject safeDelta d m (px, py, pz) ob))
       \<and> posZ (stepObject (updateObject safeDelta d m (px, py, pz) ob))
           = posZ ob + (if type ob = MISSILE then d + MISSILE_SPEED * safeDelta else d)"
    by (simp add: updateObject_def pull posZ_moveObject Let_def)
qed

text \<open>
  The scenario of the specification: the spike moves from -2 to 0.5 past a player at the
  origin in one frame.
\<close>

theorem swept_collision_hit_witness:
  "type spike = OBSTACLE \<and> posZ spike = -2
   \<and> posZ (stepObject (updateObject 0.05 2.5 False (0, 0, 0) spike)) = 0.5
   \<and> count_list (stepEffects (updateObject 0.05 2.5 False (0, 0, 0) spike)) PlayerHit = 1
   \<and> \<not> active (stepObject (updateObject 0.05 2.5 False (0, 0, 0) spike))"
proof -
  have h: "active spike \<and> (type spike = OBSTACLE \<or> type spike = ALIEN \<or> type spike = MISSILE)
      \<and> posZ spike < 0 + 2
      \<and> posZ spike + (if type spike = MISSILE then 2.5 + MISSILE_SPEED * 0.05 else 2.5) > 0 - 2
      \<and> \<bar>posX spike - 0\<bar> < 0.9
      \<and> 0 < objTop spike \<and> 0 + 1.8 > objBottom spike"
    by (simp add: spike_def newObject_def posZ_def posX_def objTop_def objBottom_def
        OBSTACLE_HEIGHT_def)
  have s: "type spike = OBSTACLE" "posZ spike = -2"
    by (simp_all add: spike_def newObject_def posZ_def)
  note r = swept_collision_hit [of spike 0 "2.5" "0.05" 0 0 False, THEN mp, OF h]
  have "posZ (stepObject (updateObject 0.05 2.5 False (0, 0, 0) spike)) = 0.5"
    using r [THEN conjunct2, THEN conjunct2] s by simp
  with r [THEN conjunct1] r [THEN conjunct2, THEN conjunct1] s show ?thesis
    by blast
qed

subsection \<open>Player hits of a whole frame\<close>

lemma collectItem_no_hit: "count_list (collectItem ob) PlayerHit = 0"
proof -
  have gem: "count_list (if type ob = GEM
      then [CallCollectGem (case points ob of None \<Rightarrow> 50 | Some p \<Rightarrow> if p = 0 then 50 else p),
            AudioGemCollect]
      else []) PlayerHit = 0"
    by simp
  have letter: "count_list (case targetIndex ob of None \<Rightarrow> []
      | Some i \<Rightarrow> [CallCollectLetter i, AudioLetterCollect]) PlayerHit = 0"
    by (cases "targetIndex ob") simp_all
  have power: "count_list (case powerUpType ob of None \<Rightarrow> []
      | Some p \<Rightarrow> [CallApplyPowerUp p, AudioPowerUp]) PlayerHit = 0"
    by (cases "powerUpType ob") simp_all
  show ?thesis
    unfolding collectItem_def count_list_append
    by (cases "type ob = LETTER"; cases "type ob = POWERUP") (simp_all add: letter power)
qed

lemma collide_player_hits:
  "count_list (stepEffects (collide m (px, py, pz) prevZ ob)) PlayerHit =
     (if active ob \<and> isDamageSource ob \<and> prevZ < pz + 2 \<and> posZ ob > pz - 2
         \<and> \<bar>posX ob - px\<bar> < 0.9 \<and> py < objTop ob \<and> py + 1.8 > objBottom ob
      then 1 else 0)"
  by (simp add: collide_def untouched_def isDamageSource_def collectItem_no_hit Let_def)

lemma updateObject_player_hits:
  "count_list (stepEffects (updateObject safeDelta d m (px, py, pz) ob)) PlayerHit =
     (if active ob \<and> isDamageSource ob \<and> posZ ob < pz + 2
         \<and> posZ (moveObject safeDelta d ob) > pz - 2
         \<and> \<bar>posX ob - px\<bar> < 0.9 \<and> py < objTop ob \<and> py + 1.8 > objBottom ob
      then 1 else 0)"
proof -
  let ?mv = "moveObject safeDelta d ob"
  let ?pl = "magnetPull safeDelta m (px, py, pz) ?mv"
  let ?fired = "if alienFires ?pl then ?pl\<lparr>hasFired := Some True\<rparr> else ?pl"
  have same: "active ?fired = active ob" "type ?fired = type ob"
    "posY ?fired = posY ob" "posZ ?fired = posZ ?mv"
    by (simp_all add: magnetPull_def moveObject_def posZ_def posX_def posY_def Let_def)
  have samex: "isDamageSource ob \<Longrightarrow> posX ?fired = posX ob"
    by (auto simp add: magnetPull_def moveObject_def isDamageSource_def posX_def Let_def)
  have ext: "isDamageSource ?fired = isDamageSource ob" "objTop ?fired = objTop ob"
    "objBottom ?fired = objBottom ob"
    by (simp_all only: same isDamageSource_def objTop_def objBottom_def)
  have "count_list (stepEffects (updateObject safeDelta d m (px, py, pz) ob)) PlayerHit
      = count_list (stepEffects (collide m (px, py, pz) (posZ ob) ?fired)) PlayerHit"
    by (simp add: updateObject_def Let_def)
  also have "\<dots> = (if active ob \<and> isDamageSource ob \<and> posZ ob < pz + 2
         \<and> posZ ?mv > pz - 2
         \<and> \<bar>posX ob - px\<bar> < 0.9 \<and> py < objTop ob \<and> py + 1.8 > objBottom ob
      then 1 else 0)"
    unfolding collide_player_hits ext same(1) same(4) using samex by auto
  finally show ?thesis .
qed

lemma count_list_concat:
  "count_list (concat xss) x = sum_list (map (\<lambda>xs. count_list xs x) xss)"
  by (induction xss) simp_all

lemma sum_list_indicator:
  "sum_list (map (\<lambda>x. if P x then 1 else 0) xs) = length (filter P xs)"
  by (induction xs) simp_all

text \<open>
  A frame of a running game emits as many player-hit events as it has objects that meet
  the swept collision test: one for each of them and none for any other.
\<close>

lemma useFrame_player_hits:
  assumes "status g = PLAYING"
  shows "count_list (snd (useFrame g delta (Some (px, py, pz)) rnd refs)) PlayerHit =
     length (filter
       (\<lambda>ob. active ob \<and> isDamageSource ob \<and> posZ ob < pz + 2
          \<and> posZ (moveObject (min delta 0.05) (speed g * speedMultiplier g * min delta 0.05) ob)
              > pz - 2
          \<and> \<bar>posX ob - px\<bar> < 0.9 \<and> py < objTop ob \<and> py + 1.8 > objBottom ob)
       (objects refs))"
  using assms
  by (simp add: useFrame_def Let_def count_list_concat comp_def updateObject_player_hits
      sum_list_indicator)

subsection \<open>Alien fire\<close>

lemma collide_hasFired: "hasFired (stepObject (collide m pp prevZ ob)) = hasFired ob"
  by (simp add: collide_def untouched_def Let_def)

lemma tickObject_spawns:
  "stepSpawns (tickObject tk ob) =
     (if type ob = ALIEN \<and> active ob \<and> hasFired ob \<noteq> Some True \<and> posZ ob + tickDist tk > -90
      then [(newObject MISSILE (posX ob, 1.0, posZ ob + tickDist tk + 2))\<lparr>color := Some ''#ff0000''\<rparr>]
      else [])"
  by (simp add: tickObject_def updateObject_def alienFires_def missileOf_def magnetPull_def
      moveObject_def posX_def posY_def posZ_def Let_def)

lemma tickObject_hasFired:
  "hasFired (stepObject (tickObject tk ob)) =
     (if stepSpawns (tickObject tk ob) \<noteq> [] then Some True else hasFired ob)"
  by (simp add: tickObject_def updateObject_def collide_hasFired magnetPull_fields
      posZ_moveObject Let_def)

lemma missilesOver_fired: "hasFired ob = Some True \<Longrightarrow> missilesOver tks ob = []"
proof (induction tks arbitrary: ob)
  case Nil
  then show ?case by simp
next
  case (Cons tk tks)
  have none: "stepSpawns (tickObject tk ob) = []"
    using Cons.prems by (simp add: tickObject_spawns)
  then have "hasFired (stepObject (tickObject tk ob)) = Some True"
    using Cons.prems by (simp add: tickObject_hasFired)
  then have "missilesOver tks (stepObject (tickObject tk ob)) = []"
    by (rule Cons.IH)
  with none show ?case by (simp add: Let_def)
qed

lemma missilesOver_at_most_one: "length (missilesOver tks ob) \<le> 1"
proof (induction tks arbitrary: ob)
  case Nil
  then show ?case by simp
next
  case (Cons tk tks)
  show ?case
  proof (cases "stepSpawns (tickObject tk ob) = []")
    case True
    then show ?thesis using Cons.IH [of "stepObject (tickObject tk ob)"] by (simp add: Let_def)
  next
    case False
    then have "hasFired (stepObject (tickObject tk ob)) = Some True"
      by (simp add: tickObject_hasFired)
    then have rest: "missilesOver tks (stepObject (tickObject tk ob)) = []"
      by (rule missilesOver_fired)
    have "length (stepSpawns (tickObject tk ob)) \<le> 1"
      by (simp add: tickObject_spawns)
    with rest show ?thesis by (simp add: Let_def)
  qed
qed

text \<open>
  Claim C9. An active alien that has not fired and whose position after the move of a
  frame is beyond -90 sets its fired flag and spawns exactly one missile, two units ahead
  of it at height 1.0; nothing but such an alien spawns a missile; and over any sequence
  of frames one object spawns at most one missile, and none at all once its flag is set.
\<close>

theorem alien_fires_once:
  "(type ob = ALIEN \<and> active ob \<and> hasFired ob \<noteq> Some True \<and> posZ ob + tickDist tk > -90 \<longrightarrow>
      stepSpawns (tickObject tk ob) =
        [(newObject MISSILE (posX ob, 1.0, posZ ob + tickDist tk + 2))\<lparr>color := Some ''#ff0000''\<rparr>]
      \<and> hasFired (stepObject (tickObject tk ob)) = Some True)
   \<and> (stepSpawns (tickObject tk ob) \<noteq> [] \<longrightarrow>
        type ob = ALIEN \<and> active ob \<and> hasFired ob \<noteq> Some True)
   \<and> length (missilesOver tks ob) \<le> 1
   \<and> (hasFired ob = Some True \<longrightarrow> missilesOver tks ob = [])"
  using missilesOver_at_most_one [of tks ob] missilesOver_fired [of ob tks]
  by (simp add: tickObject_spawns tickObject_hasFired)

theorem alien_fires_once_witness:
  "stepSpawns (tickObject frame alien) =
     [(newObject MISSILE (2.2, 1.0, -87.5))\<lparr>color := Some ''#ff0000''\<rparr>]
   \<and> hasFired (stepObject (tickObject frame alien)) = Some True
   \<and> missilesOver [frame, frame, frame] (stepObject (tickObject frame alien)) = []
   \<and> length (missilesOver [frame, frame, frame, frame] alien) \<le> 1"
proof -
  have h: "type alien = ALIEN \<and> active alien \<and> hasFired alien \<noteq> Some True
      \<and> posZ alien + tickDist frame > -90"
    by (simp add: alien_def frame_def newObject_def posZ_def)
  have pos: "posX alien = 2.2" "posZ alien + tickDist frame + 2 = -87.5"
    by (simp_all add: alien_def frame_def newObject_def posX_def posZ_def)
  note a = alien_fires_once [of alien frame "[frame, frame, frame, frame]"]
  note fired = a [THEN conjunct1, THEN mp, OF h]
  note later = alien_fires_once [of "stepObject (tickObject frame alien)" frame
      "[frame, frame, frame]", THEN conjunct2, THEN conjunct2, THEN conjunct2, THEN mp,
      OF fired [THEN conjunct2]]
  from fired [THEN conjunct1] pos
  have "stepSpawns (tickObject frame alien) =
      [(newObject MISSILE (2.2, 1.0, -87.5))\<lparr>color := Some ''#ff0000''\<rparr>]"
    by (simp only:)
  with fired [THEN conjunct2] later a [THEN conjunct2, THEN conjunct2, THEN conjunct1]
  show ?thesis by blast
qed

section \<open>Properties of the spawn planner\<close>

lemma newObject_fields:
  "type (newObject t p) = t" "posZ (newObject t p) = snd (snd p)" "active (newObject t p)"
  by (simp_all add: newObject_def posZ_def)

lemma spawnLetter_fields:
  "type (spawnLetter lanes collected rnd z) = LETTER"
  "posZ (spawnLetter lanes collected rnd z) = z"
  by (simp_all add: spawnLetter_def newObject_def posZ_def Let_def)

lemma spawnGem_fields:
  "type (spawnGem lanes rnd z) = GEM" "posZ (spawnGem lanes rnd z) = z"
  by (simp_all add: spawnGem_def newObject_def posZ_def Let_def)

lemma spawnPowerUp_fields:
  "type (spawnPowerUp lanes rnd z) = POWERUP" "posZ (spawnPowerUp lanes rnd z) = z"
  by (simp_all add: spawnPowerUp_def newObject_def posZ_def Let_def)

lemma spawnAliens_fields:
  "ob \<in> set (spawnAliens lanes rnd z) \<Longrightarrow> type ob = ALIEN \<and> posZ ob = z"
  by (auto simp add: spawnAliens_def newObject_def posZ_def Let_def)

lemma spikeAt_fields:
  "ob \<in> set (spikeAt md rnd z il) \<Longrightarrow> (type ob = OBSTACLE \<or> type ob = GEM) \<and> posZ ob = z"
  by (auto simp add: spikeAt_def newObject_def posZ_def Let_def split: if_splits)

lemma spawnSpikes_fields:
  "ob \<in> set (spawnSpikes md lanes rnd z) \<Longrightarrow> (type ob = OBSTACLE \<or> type ob = GEM) \<and> posZ ob = z"
  unfolding spawnSpikes_def Let_def set_concat
  using spikeAt_fields by fastforce

lemma spawnZ_horizon: "spawnZ md effectiveSpeed keptObjects \<le> -120"
  by (simp add: spawnZ_def SPAWN_DISTANCE_def)

lemma furthestZ_Min:
  "furthestZ keptObjects =
     (if \<exists>ob \<in> set keptObjects. type ob \<noteq> MISSILE
      then Min (posZ ` {ob \<in> set keptObjects. type ob \<noteq> MISSILE}) else -20)"
proof (cases "filter (\<lambda>ob. type ob \<noteq> MISSILE) keptObjects = []")
  case True
  then have "\<not> (\<exists>ob \<in> set keptObjects. type ob \<noteq> MISSILE)"
    by (simp add: filter_empty_conv)
  with True show ?thesis by (simp add: furthestZ_def)
next
  case False
  then have ex: "\<exists>ob \<in> set keptObjects. type ob \<noteq> MISSILE"
    by (simp add: filter_empty_conv)
  have "min_list (map posZ (filter (\<lambda>ob. type ob \<noteq> MISSILE) keptObjects))
      = Min (set (map posZ (filter (\<lambda>ob. type ob \<noteq> MISSILE) keptObjects)))"
    using False by (intro min_list_Min) simp
  also have "set (map posZ (filter (\<lambda>ob. type ob \<noteq> MISSILE) keptObjects))
      = posZ ` {ob \<in> set keptObjects. type ob \<noteq> MISSILE}"
    by simp
  finally show ?thesis using False ex by (simp add: furthestZ_def)
qed

lemma planCreated_member:
  assumes "ob \<in> set (planCreated (spawnPlanner g es travelled nextLetter nextPortal rnd kept))"
  shows "furthestZ kept > -120
    \<and> (ob = newObject SHOP_PORTAL (0, 0, spawnZ (mode g) es kept - 35)
       \<or> (ob = spawnLetter (laneCount g) (collectedLetters g) rnd (spawnZ (mode g) es kept)
           \<and> mode g = STORY \<and> travelled \<ge> nextLetter
           \<and> availableIndices (collectedLetters g) \<noteq> [])
       \<or> ob = spawnGem (laneCount g) rnd (spawnZ (mode g) es kept)
       \<or> ob = spawnPowerUp (laneCount g) rnd (spawnZ (mode g) es kept)
       \<or> ob \<in> set (spawnAliens (laneCount g) rnd (spawnZ (mode g) es kept))
       \<or> ob \<in> set (spawnSpikes (mode g) (laneCount g) rnd (spawnZ (mode g) es kept)))"
proof -
  have far: "furthestZ kept > -120"
    using assms by (auto simp add: spawnPlanner_def SPAWN_DISTANCE_def split: if_splits)
  with assms show ?thesis
    by (auto simp add: spawnPlanner_def SPAWN_DISTANCE_def Let_def split: if_splits)
qed

lemma planCreated_cases:
  assumes "ob \<in> set (planCreated (spawnPlanner g es travelled nextLetter nextPortal rnd kept))"
  shows "furthestZ kept > -120"
    and "type ob = SHOP_PORTAL \<Longrightarrow> posZ ob = spawnZ (mode g) es kept - 35"
    and "type ob \<noteq> SHOP_PORTAL \<Longrightarrow> posZ ob = spawnZ (mode g) es kept"
proof -
  let ?z = "spawnZ (mode g) es kept"
  note m = planCreated_member [OF assms]
  show "furthestZ kept > -120"
    using m by simp
  have "(type ob = SHOP_PORTAL \<and> posZ ob = ?z - 35) \<or> (type ob \<noteq> SHOP_PORTAL \<and> posZ ob = ?z)"
    using m spawnAliens_fields [of ob "laneCount g" rnd ?z]
      spawnSpikes_fields [of ob "mode g" "laneCount g" rnd ?z]
    by (auto simp add: newObject_fields spawnLetter_fields spawnGem_fields spawnPowerUp_fields)
  then show "type ob = SHOP_PORTAL \<Longrightarrow> posZ ob = ?z - 35"
    and "type ob \<noteq> SHOP_PORTAL \<Longrightarrow> posZ ob = ?z"
    by auto
qed

subsection \<open>Spawn positions\<close>

text \<open>
  Claim C8, as amended. The planner creates entities only when the nearest forward
  position among the kept entities that are not missiles (or -20, when there is none) is
  closer than the spawn horizon of 120. Every entity it creates stands at the spawn
  position, the minimum of that nearest position minus the gap (13 or 14 plus a multiple
  of the speed, capped at 30) and -120, but for the shop portal of the endless mode,
  which stands 35 units beyond it; so no created entity is closer than the horizon.
\<close>

theorem planner_spawn_positions:
  "(\<forall>ob \<in> set (planCreated (spawnPlanner g es travelled nextLetter nextPortal rnd kept)).
      posZ ob = (if type ob = SHOP_PORTAL then spawnZ (mode g) es kept - 35
                 else spawnZ (mode g) es kept)
      \<and> posZ ob \<le> -120)
   \<and> (planCreated (spawnPlanner g es travelled nextLetter nextPortal rnd kept) \<noteq> [] \<longrightarrow>
        furthestZ kept > -120)
   \<and> spawnZ (mode g) es kept =
        min (furthestZ kept
              - min 30 ((if mode g = ENDLESS then 13 else 14)
                        + es * (if mode g = ENDLESS then 0.22 else 0.26)))
            (-120)
   \<and> furthestZ kept =
        (if \<exists>ob \<in> set kept. type ob \<noteq> MISSILE
         then Min (posZ ` {ob \<in> set kept. type ob \<noteq> MISSILE}) else -20)"
proof (intro conjI ballI impI)
  fix ob
  assume ob: "ob \<in> set (planCreated (spawnPlanner g es travelled nextLetter nextPortal rnd kept))"
  show "posZ ob = (if type ob = SHOP_PORTAL then spawnZ (mode g) es kept - 35
                 else spawnZ (mode g) es kept)"
    using planCreated_cases(2,3) [OF ob] by simp
  then show "posZ ob \<le> -120"
    using spawnZ_horizon [of "mode g" es kept] by (simp split: if_splits)
next
  assume "planCreated (spawnPlanner g es travelled nextLetter nextPortal rnd kept) \<noteq> []"
  then obtain ob
    where "ob \<in> set (planCreated (spawnPlanner g es travelled nextLetter nextPortal rnd kept))"
    by (cases "planCreated (spawnPlanner g es travelled nextLetter nextPortal rnd kept)") auto
  then show "furthestZ kept > -120"
    by (rule planCreated_cases(1))
next
  show "spawnZ (mode g) es kept =
        min (furthestZ kept
              - min 30 ((if mode g = ENDLESS then 13 else 14)
                        + es * (if mode g = ENDLESS then 0.22 else 0.26)))
            (-120)"
    by (simp add: spawnZ_def minGap_def SPAWN_DISTANCE_def Let_def)
next
  show "furthestZ kept =
        (if \<exists>ob \<in> set kept. type ob \<noteq> MISSILE
         then Min (posZ ` {ob \<in> set kept. type ob \<noteq> MISSILE}) else -20)"
    by (rule furthestZ_Min)
qed

lemma endless_plan:
  "planCreated (spawnPlanner endlessRun 20 500 150 450 draws [gemAhead]) =
     [newObject SHOP_PORTAL (0, 0, -155),
      (newObject GEM (0, 1.2, -120))\<lparr>color := Some ''#00ffff'', points := Some 50\<rparr>]"
  "spawnZ ENDLESS 20 [gemAhead] = -120"
  "furthestZ [gemAhead] = -100"
  "mode endlessRun = ENDLESS"
  by (simp_all add: spawnPlanner_def portalDue_def spawnZ_def furthestZ_def minGap_def
      spawnGem_def getRandomLane_def endlessRun_def startGame_def gemAhead_def draws_def
      newObject_def posZ_def SPAWN_DISTANCE_def LANE_WIDTH_def Let_def)

theorem planner_spawn_positions_witness:
  "planCreated (spawnPlanner endlessRun 20 500 150 450 draws [gemAhead]) =
     [newObject SHOP_PORTAL (0, 0, -155),
      (newObject GEM (0, 1.2, -120))\<lparr>color := Some ''#00ffff'', points := Some 50\<rparr>]
   \<and> furthestZ [gemAhead] > -120
   \<and> posZ (newObject SHOP_PORTAL (0, 0, -155)) = spawnZ ENDLESS 20 [gemAhead] - 35
   \<and> posZ ((newObject GEM (0, 1.2, -120))\<lparr>color := Some ''#00ffff'', points := Some 50\<rparr>)
       = spawnZ ENDLESS 20 [gemAhead]"
proof -
  let ?portal = "newObject SHOP_PORTAL (0, 0, -155)"
  let ?gem = "(newObject GEM (0, 1.2, -120))\<lparr>color := Some ''#00ffff'', points := Some 50\<rparr>"
  let ?plan = "spawnPlanner endlessRun 20 500 150 450 draws [gemAhead]"
  note p = planner_spawn_positions [of endlessRun 20 500 150 450 draws "[gemAhead]"]
  have types: "type ?portal = SHOP_PORTAL" "type ?gem \<noteq> SHOP_PORTAL"
    by (simp_all add: newObject_def)
  have mem: "?portal \<in> set (planCreated ?plan)" "?gem \<in> set (planCreated ?plan)"
    unfolding endless_plan(1) by simp_all
  have "planCreated ?plan \<noteq> []"
    unfolding endless_plan(1) by simp
  then have far: "furthestZ [gemAhead] > -120"
    using p [THEN conjunct2, THEN conjunct1] by blast
  have "posZ ?portal = spawnZ ENDLESS 20 [gemAhead] - 35"
    using p [THEN conjunct1, THEN bspec, OF mem(1)] types(1) endless_plan(4) by simp
  moreover have "posZ ?gem = spawnZ ENDLESS 20 [gemAhead]"
    using p [THEN conjunct1, THEN bspec, OF mem(2)] types(2) endless_plan(4) by simp
  ultimately show ?thesis
    using far endless_plan(1) by blast
qed

theorem planner_spawn_positions_counterexample:
  "mode endlessRun = ENDLESS \<and> furthestZ [gemAhead] = -100
   \<and> spawnZ ENDLESS 20 [gemAhead] = -120
   \<and> hd (planCreated (spawnPlanner endlessRun 20 500 150 450 draws [gemAhead]))
       = newObject SHOP_PORTAL (0, 0, -155)
   \<and> posZ (hd (planCreated (spawnPlanner endlessRun 20 500 150 450 draws [gemAhead])))
       \<noteq> spawnZ ENDLESS 20 [gemAhead]"
  unfolding endless_plan by (simp add: newObject_def posZ_def)

subsection \<open>Letter pacing\<close>

lemma planCreated_letter:
  "(\<exists>ob \<in> set (planCreated (spawnPlanner g es travelled nextLetter nextPortal rnd kept)).
       type ob = LETTER)
   \<longleftrightarrow> (furthestZ kept > - SPAWN_DISTANCE \<and> mode g = STORY \<and> travelled \<ge> nextLetter
        \<and> availableIndices (collectedLetters g) \<noteq> [])"
proof
  let ?z = "spawnZ (mode g) es kept"
  assume "\<exists>ob \<in> set (planCreated (spawnPlanner g es travelled nextLetter nextPortal rnd kept)).
       type ob = LETTER"
  then obtain ob
    where ob: "ob \<in> set (planCreated (spawnPlanner g es travelled nextLetter nextPortal rnd kept))"
      and letter: "type ob = LETTER"
    by blast
  from planCreated_member [OF ob] letter
    spawnAliens_fields [of ob "laneCount g" rnd ?z]
    spawnSpikes_fields [of ob "mode g" "laneCount g" rnd ?z]
  show "furthestZ kept > - SPAWN_DISTANCE \<and> mode g = STORY \<and> travelled \<ge> nextLetter
        \<and> availableIndices (collectedLetters g) \<noteq> []"
    by (auto simp add: SPAWN_DISTANCE_def newObject_fields spawnGem_fields spawnPowerUp_fields)
next
  assume "furthestZ kept > - SPAWN_DISTANCE \<and> mode g = STORY \<and> travelled \<ge> nextLetter
        \<and> availableIndices (collectedLetters g) \<noteq> []"
  then show "\<exists>ob \<in> set (planCreated (spawnPlanner g es travelled nextLetter nextPortal rnd kept)).
       type ob = LETTER"
    by (simp add: spawnPlanner_def Let_def spawnLetter_fields)
qed

lemma planner_letter_schedule:
  "planLetterDistance (spawnPlanner g es travelled nextLetter nextPortal rnd kept) =
     (if \<exists>ob \<in> set (planCreated (spawnPlanner g es travelled nextLetter nextPortal rnd kept)).
           type ob = LETTER
      then nextLetter + getLetterInterval (level g) else nextLetter)"
  unfolding planCreated_letter by (simp add: spawnPlanner_def Let_def)

text \<open>
  Claim C6. At every level \<open>n\<close> from 1 on the letter interval is the level-1 interval 150
  times 1.5 to the power \<open>n - 1\<close>, so each level's interval is 1.5 times that of the level
  before; and whenever the planner spawns a letter it schedules the next one exactly one
  interval of the current level further (and leaves the schedule alone otherwise).
\<close>

theorem letter_interval_scaling:
  "(1 \<le> n \<longrightarrow> getLetterInterval n = 150 * 1.5 ^ nat (n - 1)
              \<and> getLetterInterval (n + 1) = 1.5 * getLetterInterval n)
   \<and> planLetterDistance (spawnPlanner g es travelled nextLetter nextPortal rnd kept) =
       (if \<exists>ob \<in> set (planCreated (spawnPlanner g es travelled nextLetter nextPortal rnd kept)).
             type ob = LETTER
        then nextLetter + getLetterInterval (level g) else nextLetter)"
proof (intro conjI impI)
  assume n: "1 \<le> n"
  then show "getLetterInterval n = 150 * 1.5 ^ nat (n - 1)"
    by (simp add: getLetterInterval_def BASE_LETTER_INTERVAL_def)
  have "nat (n + 1 - 1) = Suc (nat (n - 1))"
    using n by simp
  then show "getLetterInterval (n + 1) = 1.5 * getLetterInterval n"
    using n by (simp add: getLetterInterval_def)
next
  show "planLetterDistance (spawnPlanner g es travelled nextLetter nextPortal rnd kept) =
       (if \<exists>ob \<in> set (planCreated (spawnPlanner g es travelled nextLetter nextPortal rnd kept)).
             type ob = LETTER
        then nextLetter + getLetterInterval (level g) else nextLetter)"
    by (rule planner_letter_schedule)
qed

lemma story_plan:
  "planCreated (spawnPlanner storyLevel2 22.5 400 375 450 draws [gemAhead]) =
     [(newObject LETTER (0, 1.0, -120))
        \<lparr>color := Some ''#00e676'', letterValue := Some ''N'', targetIndex := Some 4\<rparr>]"
  "level storyLevel2 = 2"
  by (simp_all add: spawnPlanner_def portalDue_def spawnZ_def furthestZ_def minGap_def
      spawnLetter_def availableIndices_def getRandomLane_def storyLevel2_def startGame_def
      gemAhead_def draws_def newObject_def posZ_def SPAWN_DISTANCE_def LANE_WIDTH_def
      GEMINI_COLORS_def GEMINI_TARGET_def Let_def)

theorem letter_interval_scaling_witness:
  "getLetterInterval 1 = 150 \<and> getLetterInterval 2 = 225 \<and> getLetterInterval 3 = 337.5
   \<and> planLetterDistance (spawnPlanner storyLevel2 22.5 400 375 450 draws [gemAhead]) = 600"
proof -
  let ?plan = "spawnPlanner storyLevel2 22.5 400 375 450 draws [gemAhead]"
  have one: "(1::int) \<le> 1" and two: "(1::int) \<le> 2" and three: "(1::int) \<le> 3"
    by simp_all
  note i1 = letter_interval_scaling [of 1 storyLevel2 "22.5" 400 375 450 draws "[gemAhead]",
      THEN conjunct1, THEN mp, OF one]
  note i2 = letter_interval_scaling [of 2 storyLevel2 "22.5" 400 375 450 draws "[gemAhead]",
      THEN conjunct1, THEN mp, OF two]
  note sched = letter_interval_scaling [of 2 storyLevel2 "22.5" 400 375 450 draws "[gemAhead]",
      THEN conjunct2]
  have v1: "getLetterInterval 1 = 150"
    using i1 [THEN conjunct1] by simp
  have v2: "getLetterInterval 2 = 225"
    using i2 [THEN conjunct1] by simp
  have v3: "getLetterInterval 3 = 337.5"
    using i2 [THEN conjunct2] v2 by simp
  have "\<exists>ob \<in> set (planCreated ?plan). type ob = LETTER"
    unfolding story_plan(1) by (simp add: newObject_def)
  then have "planLetterDistance ?plan = 375 + getLetterInterval (level storyLevel2)"
    using sched by simp
  then have "planLetterDistance ?plan = 600"
    using v2 by (simp add: story_plan(2))
  with v1 v2 v3 show ?thesis by blast
qed

end
